theory Spec2Isabelle
  imports Complex_Main
begin

section \<open>Python floats\<close>

text \<open>
  Every number \<^verbatim>\<open>enviro.py\<close> computes with is a Python \<^verbatim>\<open>float\<close>: an IEEE 754
  binary64 value. A finite one is the rational \<open>m * 2 ^ e\<close> with \<open>\<bar>m\<bar> < 2 ^ 53\<close> and
  \<open>- 1074 \<le> e \<le> 971\<close>; each arithmetic operation returns the exact result rounded to the
  nearest such value, ties to the even significand, and a result of magnitude
  \<open>2 ^ 1024\<close> or more after rounding is an infinity. The two zeros are identified: they
  compare equal in Python and differ only in the sign that is printed.
\<close>

datatype pyfloat = Fin rat | PInf | NInf | NaN

text \<open>\<^verbatim>\<open>int.bit_length\<close>: the number of binary digits of a natural number.\<close>

fun bit_length :: "nat \<Rightarrow> nat" where
  "bit_length n = (if n = 0 then 0 else Suc (bit_length (n div 2)))"

declare bit_length.simps [simp del]

definition pow2 :: "int \<Rightarrow> rat" where
  "pow2 k = (if 0 \<le> k then 2 ^ nat k else 1 / 2 ^ nat (- k))"

definition round_half_even :: "rat \<Rightarrow> int" where
  "round_half_even q =
     (let f = \<lfloor>q\<rfloor>; d = q - of_int f
      in if d < 1 / 2 then f else if 1 / 2 < d then f + 1 else if even f then f else f + 1)"

text \<open>For \<open>0 < a\<close>, \<open>ilog2 a\<close> is the exponent \<open>e\<close> with \<open>2 ^ e \<le> a < 2 ^ (e + 1)\<close>.\<close>

definition ilog2 :: "rat \<Rightarrow> int" where
  "ilog2 a = (if 1 \<le> a then int (bit_length (nat \<lfloor>a\<rfloor>)) - 1
              else - int (bit_length (nat (\<lceil>1 / a\<rceil> - 1))))"

text \<open>
  Rounding to binary64: the unit in the last place is \<open>2 ^ (e - 52)\<close>, and \<open>2 ^ - 1074\<close>
  in the subnormal range.
\<close>

definition round_b64 :: "rat \<Rightarrow> pyfloat" where
  "round_b64 q =
     (if q = 0 then Fin 0
      else let u = pow2 (max (ilog2 \<bar>q\<bar> - 52) (- 1074));
               r = of_int (round_half_even (\<bar>q\<bar> / u)) * u
           in if 2 ^ 1024 \<le> r then (if 0 < q then PInf else NInf)
              else Fin (if 0 < q then r else - r))"

text \<open>A rational is a binary64 value when rounding leaves it as it is.\<close>

definition is_double :: "rat \<Rightarrow> bool" where
  "is_double q = (round_b64 q = Fin q)"

fun is_neg :: "pyfloat \<Rightarrow> bool" where
  "is_neg (Fin a) = (a < 0)"
| "is_neg NInf = True"
| "is_neg PInf = False"
| "is_neg NaN = False"

fun fneg :: "pyfloat \<Rightarrow> pyfloat" where
  "fneg (Fin a) = Fin (- a)"
| "fneg PInf = NInf"
| "fneg NInf = PInf"
| "fneg NaN = NaN"

fun fadd :: "pyfloat \<Rightarrow> pyfloat \<Rightarrow> pyfloat" where
  "fadd (Fin a) (Fin b) = round_b64 (a + b)"
| "fadd NaN y = NaN"
| "fadd x NaN = NaN"
| "fadd PInf NInf = NaN"
| "fadd NInf PInf = NaN"
| "fadd PInf y = PInf"
| "fadd NInf y = NInf"
| "fadd x PInf = PInf"
| "fadd x NInf = NInf"

fun fsub :: "pyfloat \<Rightarrow> pyfloat \<Rightarrow> pyfloat" where
  "fsub (Fin a) (Fin b) = round_b64 (a - b)"
| "fsub x y = fadd x (fneg y)"

fun fmul :: "pyfloat \<Rightarrow> pyfloat \<Rightarrow> pyfloat" where
  "fmul (Fin a) (Fin b) = round_b64 (a * b)"
| "fmul NaN y = NaN"
| "fmul x NaN = NaN"
| "fmul x y = (if x = Fin 0 \<or> y = Fin 0 then NaN
               else if is_neg x = is_neg y then PInf else NInf)"

text \<open>
  True division \<^verbatim>\<open>x / y\<close>. Python raises \<^verbatim>\<open>ZeroDivisionError\<close> for a zero divisor
  instead of returning a value; \<open>fdiv\<close> is used for a divisor that is not zero only: the
  one division by a variable, in \<open>avg\<close>, tests the divisor first, and every other
  division of the program is by a literal.
\<close>

fun fdiv :: "pyfloat \<Rightarrow> pyfloat \<Rightarrow> pyfloat" where
  "fdiv (Fin a) (Fin b) = (if b = 0 then NaN else round_b64 (a / b))"
| "fdiv NaN y = NaN"
| "fdiv x NaN = NaN"
| "fdiv (Fin a) y = Fin 0"
| "fdiv x (Fin b) = (if b = 0 then NaN else if is_neg x = (b < 0) then PInf else NInf)"
| "fdiv x y = NaN"

text \<open>The comparisons \<^verbatim>\<open><\<close> and \<^verbatim>\<open><=\<close>; both are false when an operand is a NaN.\<close>

fun flt :: "pyfloat \<Rightarrow> pyfloat \<Rightarrow> bool" where
  "flt (Fin a) (Fin b) = (a < b)"
| "flt NaN y = False"
| "flt x NaN = False"
| "flt x NInf = False"
| "flt PInf y = False"
| "flt NInf y = True"
| "flt x PInf = True"

fun fle :: "pyfloat \<Rightarrow> pyfloat \<Rightarrow> bool" where
  "fle (Fin a) (Fin b) = (a \<le> b)"
| "fle NaN y = False"
| "fle x NaN = False"
| "fle NInf y = True"
| "fle x PInf = True"
| "fle x y = False"

text \<open>
  The builtin \<^verbatim>\<open>min(a, b)\<close> keeps its first argument unless the second is smaller.
  An \<^verbatim>\<open>int\<close> operand such as the literal \<^verbatim>\<open>100\<close> is the float of the same value.
\<close>

definition fmin :: "pyfloat \<Rightarrow> pyfloat \<Rightarrow> pyfloat" where
  "fmin a b = (if flt b a then b else a)"

text \<open>\<^verbatim>\<open>float(k)\<close> for an integer \<open>k\<close>.\<close>

definition float_of_int :: "int \<Rightarrow> pyfloat" where
  "float_of_int k = round_b64 (of_int k)"

section \<open>Calibration\<close>

text \<open>
  \<^verbatim>\<open>
  def correct_temperature(temperature, cpu_temperature):
      return temperature - ((cpu_temperature - temperature) / 2.25)

  def correct_humidity(humidity, temperature, corr_temperature):
      dewpoint = temperature - ((100 - humidity) / 5)
      corr_humidity = 100 - (5 * (corr_temperature - dewpoint))
      return min(100, corr_humidity)
  \<close>
\<close>

definition correct_temperature :: "pyfloat \<Rightarrow> pyfloat \<Rightarrow> pyfloat" where
  "correct_temperature temperature cpu_temperature =
     fsub temperature (fdiv (fsub cpu_temperature temperature) (Fin (9 / 4)))"

definition correct_humidity :: "pyfloat \<Rightarrow> pyfloat \<Rightarrow> pyfloat \<Rightarrow> pyfloat" where
  "correct_humidity humidity temperature corr_temperature =
     (let dewpoint = fsub temperature (fdiv (fsub (Fin 100) humidity) (Fin 5));
          corr_humidity = fsub (Fin 100) (fmul (Fin 5) (fsub corr_temperature dewpoint))
      in fmin (Fin 100) corr_humidity)"

text \<open>
  None of the six operations of \<open>correct_humidity\<close> rounds at the finite inputs
  \<open>h\<close>, \<open>t\<close>, \<open>c\<close>: each exact intermediate result is a binary64 value.
\<close>

definition humidity_exact :: "rat \<Rightarrow> rat \<Rightarrow> rat \<Rightarrow> bool" where
  "humidity_exact h t c =
     (let a = 100 - h; b = a / 5; d = t - b; e = c - d; f = 5 * e; g = 100 - f
      in is_double a \<and> is_double b \<and> is_double d \<and> is_double e \<and> is_double f
         \<and> is_double g)"

section \<open>The sampler\<close>

text \<open>
  The hardware drivers, the thermal-zone file and the clock are outside the program. They
  are a record of operations on a state \<open>'w\<close> of the outside world; a read returns its
  value and the next state. The model covers the runs in which every driver call
  returns: the program catches nothing, so a call that raises ends the process.
  The module-level \<^verbatim>\<open>samples = 10\<close> is the parameter \<open>n\<close> of every function that reads
  it, and \<^verbatim>\<open>time.sleep\<close> is the parameter \<open>slp\<close> of \<open>sample\<close>.
\<close>

datatype error = ZeroDivisionError | KeyError string

record gas_reading =
  oxidising :: pyfloat
  reducing :: pyfloat
  nh3 :: pyfloat

record 'w drivers =
  thermal_zone0_temp :: "'w \<Rightarrow> int \<times> 'w"
  update_sensor :: "'w \<Rightarrow> 'w"
  get_temperature :: "'w \<Rightarrow> pyfloat \<times> 'w"
  get_humidity :: "'w \<Rightarrow> pyfloat \<times> 'w"
  get_pressure :: "'w \<Rightarrow> pyfloat \<times> 'w"
  get_altitude :: "'w \<Rightarrow> pyfloat \<times> 'w"
  get_lux :: "'w \<Rightarrow> pyfloat \<times> 'w"
  read_all :: "'w \<Rightarrow> gas_reading \<times> 'w"
  get_noise_profile :: "'w \<Rightarrow> (pyfloat \<times> pyfloat \<times> pyfloat \<times> pyfloat) \<times> 'w"
  sleep :: "rat \<Rightarrow> 'w \<Rightarrow> 'w"

definition samples :: nat where
  "samples = 10"

text \<open>
  \<^verbatim>\<open>
  def get_cpu_temperature():
      with open("/sys/class/thermal/thermal_zone0/temp", "r") as f:
          temp = f.read()
          temp = int(temp) / 1000.0
      return temp
  \<close>
\<close>

definition get_cpu_temperature :: "'w drivers \<Rightarrow> 'w \<Rightarrow> pyfloat \<times> 'w" where
  "get_cpu_temperature drv w =
     (let (temp, w') = thermal_zone0_temp drv w
      in (fdiv (float_of_int temp) (Fin 1000), w'))"

text \<open>
  \<^verbatim>\<open>
  def avg(values):
      return sum(values) / float(len(values))
  \<close>
  \<^verbatim>\<open>sum\<close> adds the items from left to right, starting from \<^verbatim>\<open>0\<close>.
\<close>

definition fsum :: "pyfloat list \<Rightarrow> pyfloat" where
  "fsum values = foldl fadd (Fin 0) values"

definition avg :: "pyfloat list \<Rightarrow> error + pyfloat" where
  "avg values =
     (if length values = 0 then Inl ZeroDivisionError
      else Inr (fdiv (fsum values) (float_of_int (int (length values)))))"

text \<open>
  \<^verbatim>\<open>
  def sample(func):
      values = [func()] * samples
      for i in range(samples):
          time.sleep(0.1)
          values = values[1:] + [func()]
      return avg(values)
  \<close>
  The loop is a recursion on the number of iterations that remain.
\<close>

fun sample_loop ::
  "(rat \<Rightarrow> 'w \<Rightarrow> 'w) \<Rightarrow> ('w \<Rightarrow> pyfloat \<times> 'w) \<Rightarrow> nat \<Rightarrow> pyfloat list \<Rightarrow> 'w
   \<Rightarrow> pyfloat list \<times> 'w" where
  "sample_loop slp func 0 values w = (values, w)"
| "sample_loop slp func (Suc i) values w =
     (let w1 = slp (1 / 10) w;
          (x, w2) = func w1
      in sample_loop slp func i (drop 1 values @ [x]) w2)"

definition sample ::
  "nat \<Rightarrow> (rat \<Rightarrow> 'w \<Rightarrow> 'w) \<Rightarrow> ('w \<Rightarrow> pyfloat \<times> 'w) \<Rightarrow> 'w \<Rightarrow> (error + pyfloat) \<times> 'w" where
  "sample n slp func w =
     (let (x, w0) = func w;
          (values, w') = sample_loop slp func n (replicate n x) w0
      in (avg values, w'))"

text \<open>
  What the read operation returns in \<open>i\<close> successive rounds of the loop, each round a
  delay followed by one call, and the state they leave.
\<close>

fun reads ::
  "(rat \<Rightarrow> 'w \<Rightarrow> 'w) \<Rightarrow> ('w \<Rightarrow> pyfloat \<times> 'w) \<Rightarrow> nat \<Rightarrow> 'w \<Rightarrow> pyfloat list \<times> 'w" where
  "reads slp func 0 w = ([], w)"
| "reads slp func (Suc i) w =
     (let w1 = slp (1 / 10) w;
          (x, w2) = func w1;
          (xs, w3) = reads slp func i w2
      in (x # xs, w3))"

text \<open>
  A read operation instrumented with a counter of its calls, and a delay that leaves
  the counter alone.
\<close>

definition counted :: "('w \<Rightarrow> pyfloat \<times> 'w) \<Rightarrow> nat \<times> 'w \<Rightarrow> pyfloat \<times> (nat \<times> 'w)" where
  "counted func = (\<lambda>(k, w). let (x, w') = func w in (x, (Suc k, w')))"

definition uncounted :: "(rat \<Rightarrow> 'w \<Rightarrow> 'w) \<Rightarrow> rat \<Rightarrow> nat \<times> 'w \<Rightarrow> nat \<times> 'w" where
  "uncounted slp = (\<lambda>d (k, w). (k, slp d w))"

text \<open>
  A read operation that replays the sequence \<open>xs\<close>: its state is the index of the
  next call.
\<close>

definition replay :: "(nat \<Rightarrow> pyfloat) \<Rightarrow> nat \<Rightarrow> pyfloat \<times> nat" where
  "replay xs = (\<lambda>k. (xs k, Suc k))"

text \<open>
  A read operation that returns the same \<open>v\<close> on every call, whatever \<open>step\<close> a call
  makes on the state; and a delay that leaves the state as it is.
\<close>

definition constant_read :: "pyfloat \<Rightarrow> ('w \<Rightarrow> 'w) \<Rightarrow> 'w \<Rightarrow> pyfloat \<times> 'w" where
  "constant_read v step w = (v, step w)"

definition idle :: "rat \<Rightarrow> 'w \<Rightarrow> 'w" where
  "idle d w = w"

text \<open>
  The running sums \<open>q\<close>, \<open>2 * q\<close>, \<dots>, \<open>n * q\<close> of \<open>n\<close> copies of \<open>q\<close>, and the count
  \<open>n\<close> itself, are binary64 values.
\<close>

fun sums_double :: "nat \<Rightarrow> rat \<Rightarrow> bool" where
  "sums_double 0 q = True"
| "sums_double (Suc k) q = (is_double (of_nat (Suc k) * q) \<and> sums_double k q)"

definition sums_exact :: "nat \<Rightarrow> rat \<Rightarrow> bool" where
  "sums_exact n q = (is_double (of_nat n) \<and> sums_double n q)"

section \<open>Reading the sensors\<close>

text \<open>
  \<^verbatim>\<open>
  def read_init():
      bme280.update_sensor()
      ltr559.get_lux()
      gas.read_all()
      noise.get_noise_profile()
      time.sleep(0.5)
  \<close>
\<close>

definition read_init :: "'w drivers \<Rightarrow> 'w \<Rightarrow> 'w" where
  "read_init drv w =
     (let w1 = update_sensor drv w;
          w2 = snd (get_lux drv w1);
          w3 = snd (read_all drv w2);
          w4 = snd (get_noise_profile drv w3)
      in sleep drv (1 / 2) w4)"

text \<open>
  \<^verbatim>\<open>
  def read_bme280():
      cpu_temps = [get_cpu_temperature()] * samples
      raw_temps = [bme280.get_temperature()] * samples
      raw_humids = [bme280.get_humidity()] * samples
      for i in range(samples):
          time.sleep(0.1)
          cpu_temps = cpu_temps[1:] + [get_cpu_temperature()]
          raw_temps = raw_temps[1:] + [bme280.get_temperature()]
          raw_humids = raw_humids[1:] + [bme280.get_humidity()]
      cpu_temp = avg(cpu_temps)
      temp = avg(raw_temps)
      humid = avg(raw_humids)
      temp_corr = correct_temperature(temp, cpu_temp)
      humid_corr = correct_humidity(humid, temp, temp_corr)
      pressure = sample(bme280.get_pressure)
      altitude = sample(bme280.get_altitude)
      return {'temperature': temp_corr, 'humidity': humid_corr, 'pressure': pressure,
              'altitude': altitude, 'cpu_temperature': cpu_temp, 'raw_temperature': temp,
              'raw_humidity': humid}
  \<close>
\<close>

fun bme280_loop ::
  "'w drivers \<Rightarrow> nat \<Rightarrow> pyfloat list \<times> pyfloat list \<times> pyfloat list \<Rightarrow> 'w
   \<Rightarrow> (pyfloat list \<times> pyfloat list \<times> pyfloat list) \<times> 'w" where
  "bme280_loop drv 0 windows w = (windows, w)"
| "bme280_loop drv (Suc i) (cpu_temps, raw_temps, raw_humids) w =
     (let w1 = sleep drv (1 / 10) w;
          (c, w2) = get_cpu_temperature drv w1;
          (t, w3) = get_temperature drv w2;
          (h, w4) = get_humidity drv w3
      in bme280_loop drv i
           (drop 1 cpu_temps @ [c], drop 1 raw_temps @ [t], drop 1 raw_humids @ [h]) w4)"

definition read_bme280 ::
  "nat \<Rightarrow> 'w drivers \<Rightarrow> 'w \<Rightarrow> (error + (string \<rightharpoonup> pyfloat)) \<times> 'w" where
  "read_bme280 n drv w =
     (let (c0, w1) = get_cpu_temperature drv w;
          (t0, w2) = get_temperature drv w1;
          (h0, w3) = get_humidity drv w2;
          ((cpu_temps, raw_temps, raw_humids), w4) =
             bme280_loop drv n (replicate n c0, replicate n t0, replicate n h0) w3
      in case avg cpu_temps of Inl e \<Rightarrow> (Inl e, w4) | Inr cpu_temp \<Rightarrow>
        (case avg raw_temps of Inl e \<Rightarrow> (Inl e, w4) | Inr temp \<Rightarrow>
        (case avg raw_humids of Inl e \<Rightarrow> (Inl e, w4) | Inr humid \<Rightarrow>
          (let temp_corr = correct_temperature temp cpu_temp;
               humid_corr = correct_humidity humid temp temp_corr
           in case sample n (sleep drv) (get_pressure drv) w4 of
                (Inl e, w5) \<Rightarrow> (Inl e, w5)
              | (Inr pressure, w5) \<Rightarrow>
                  (case sample n (sleep drv) (get_altitude drv) w5 of
                     (Inl e, w6) \<Rightarrow> (Inl e, w6)
                   | (Inr altitude, w6) \<Rightarrow>
                       (Inr [''temperature'' \<mapsto> temp_corr, ''humidity'' \<mapsto> humid_corr,
                             ''pressure'' \<mapsto> pressure, ''altitude'' \<mapsto> altitude,
                             ''cpu_temperature'' \<mapsto> cpu_temp, ''raw_temperature'' \<mapsto> temp,
                             ''raw_humidity'' \<mapsto> humid], w6))))))"

text \<open>
  \<^verbatim>\<open>
  def read_ltr559():
      light = sample(ltr559.get_lux)
      return {'light': light}
  \<close>
\<close>

definition read_ltr559 ::
  "nat \<Rightarrow> 'w drivers \<Rightarrow> 'w \<Rightarrow> (error + (string \<rightharpoonup> pyfloat)) \<times> 'w" where
  "read_ltr559 n drv w =
     (case sample n (sleep drv) (get_lux drv) w of
        (Inl e, w') \<Rightarrow> (Inl e, w')
      | (Inr light, w') \<Rightarrow> (Inr [''light'' \<mapsto> light], w'))"

text \<open>
  \<^verbatim>\<open>
  def read_gas():
      gas.read_all()
      time.sleep(0.2)
      data = gas.read_all()
      ox = [data.oxidising / 1000] * samples
      re = [data.reducing / 1000] * samples
      nh = [data.nh3 / 1000] * samples
      for i in range(samples):
          time.sleep(0.1)
          data = gas.read_all()
          ox = ox[1:] + [data.oxidising / 1000]
          re = re[1:] + [data.reducing / 1000]
          nh = nh[1:] + [data.nh3 / 1000]
      oxidising = avg(ox)
      reducing = avg(re)
      nh3 = avg(nh)
      return {'oxidising': oxidising, 'reducing': reducing, 'nh3': nh3}
  \<close>
\<close>

fun gas_loop ::
  "'w drivers \<Rightarrow> nat \<Rightarrow> pyfloat list \<times> pyfloat list \<times> pyfloat list \<Rightarrow> 'w
   \<Rightarrow> (pyfloat list \<times> pyfloat list \<times> pyfloat list) \<times> 'w" where
  "gas_loop drv 0 windows w = (windows, w)"
| "gas_loop drv (Suc i) (ox, re, nh) w =
     (let w1 = sleep drv (1 / 10) w;
          (data, w2) = read_all drv w1
      in gas_loop drv i
           (drop 1 ox @ [fdiv (oxidising data) (Fin 1000)],
            drop 1 re @ [fdiv (reducing data) (Fin 1000)],
            drop 1 nh @ [fdiv (nh3 data) (Fin 1000)]) w2)"

definition read_gas ::
  "nat \<Rightarrow> 'w drivers \<Rightarrow> 'w \<Rightarrow> (error + (string \<rightharpoonup> pyfloat)) \<times> 'w" where
  "read_gas n drv w =
     (let w1 = snd (read_all drv w);
          w2 = sleep drv (1 / 5) w1;
          (data, w3) = read_all drv w2;
          ((ox, re, nh), w4) =
             gas_loop drv n
               (replicate n (fdiv (oxidising data) (Fin 1000)),
                replicate n (fdiv (reducing data) (Fin 1000)),
                replicate n (fdiv (nh3 data) (Fin 1000))) w3
      in case avg ox of Inl e \<Rightarrow> (Inl e, w4) | Inr oxidising_avg \<Rightarrow>
        (case avg re of Inl e \<Rightarrow> (Inl e, w4) | Inr reducing_avg \<Rightarrow>
        (case avg nh of Inl e \<Rightarrow> (Inl e, w4) | Inr nh3_avg \<Rightarrow>
          (Inr [''oxidising'' \<mapsto> oxidising_avg, ''reducing'' \<mapsto> reducing_avg,
                ''nh3'' \<mapsto> nh3_avg], w4))))"

text \<open>
  \<^verbatim>\<open>
  def read_noise():
      low, mid, high, amp = noise.get_noise_profile()
      lows = [low] * samples
      mids = [mid] * samples
      highs = [high] * samples
      amps = [amp] * samples
      for i in range(samples):
          time.sleep(0.1)
          low, mid, high, amp = noise.get_noise_profile()
          lows = lows[1:] + [low]
          mids = mids[1:] + [mid]
          highs = highs[1:] + [high]
          amps = amps[1:] + [amp]
      low = avg(lows)
      mid = avg(mids)
      high = avg(highs)
      amp = avg(amps)
      return {'low': low, 'mid': mid, 'high': high, 'amp': amp}
  \<close>
\<close>

fun noise_loop ::
  "'w drivers \<Rightarrow> nat \<Rightarrow> pyfloat list \<times> pyfloat list \<times> pyfloat list \<times> pyfloat list \<Rightarrow> 'w
   \<Rightarrow> (pyfloat list \<times> pyfloat list \<times> pyfloat list \<times> pyfloat list) \<times> 'w" where
  "noise_loop drv 0 windows w = (windows, w)"
| "noise_loop drv (Suc i) (lows, mids, highs, amps) w =
     (let w1 = sleep drv (1 / 10) w;
          ((low, mid, high, amp), w2) = get_noise_profile drv w1
      in noise_loop drv i
           (drop 1 lows @ [low], drop 1 mids @ [mid], drop 1 highs @ [high],
            drop 1 amps @ [amp]) w2)"

definition read_noise ::
  "nat \<Rightarrow> 'w drivers \<Rightarrow> 'w \<Rightarrow> (error + (string \<rightharpoonup> pyfloat)) \<times> 'w" where
  "read_noise n drv w =
     (let ((low0, mid0, high0, amp0), w1) = get_noise_profile drv w;
          ((lows, mids, highs, amps), w2) =
             noise_loop drv n
               (replicate n low0, replicate n mid0, replicate n high0, replicate n amp0) w1
      in case avg lows of Inl e \<Rightarrow> (Inl e, w2) | Inr low \<Rightarrow>
        (case avg mids of Inl e \<Rightarrow> (Inl e, w2) | Inr mid \<Rightarrow>
        (case avg highs of Inl e \<Rightarrow> (Inl e, w2) | Inr high \<Rightarrow>
        (case avg amps of Inl e \<Rightarrow> (Inl e, w2) | Inr amp \<Rightarrow>
          (Inr [''low'' \<mapsto> low, ''mid'' \<mapsto> mid, ''high'' \<mapsto> high, ''amp'' \<mapsto> amp],
           w2)))))"

section \<open>Printing\<close>

text \<open>
  A process is the state of the outside world and the lines written to standard output.
  A statement runs on a process and either completes or raises; \<open>block\<close> runs
  statements in order and stops at the first that raises.
\<close>

record 'w process =
  world :: 'w
  stdout :: "string list"

type_synonym 'w stmt = "'w process \<Rightarrow> (error + unit) \<times> 'w process"

definition print :: "string \<Rightarrow> 'w stmt" where
  "print s p = (Inr (), p\<lparr>stdout := stdout p @ [s]\<rparr>)"

fun block :: "'w stmt list \<Rightarrow> 'w stmt" where
  "block [] p = (Inr (), p)"
| "block (s # ss) p =
     (case s p of (Inl e, p') \<Rightarrow> (Inl e, p') | (Inr u, p') \<Rightarrow> block ss p')"

text \<open>
  \<^verbatim>\<open>'{:.8f}'.format(x)\<close>: the decimal expansion of \<open>x\<close> rounded to 8 places, ties to even.
\<close>

definition digit :: "nat \<Rightarrow> char" where
  "digit d = ''0123456789'' ! d"

fun str_nat :: "nat \<Rightarrow> string" where
  "str_nat n = (if n < 10 then [digit n] else str_nat (n div 10) @ [digit (n mod 10)])"

declare str_nat.simps [simp del]

definition zfill :: "nat \<Rightarrow> string \<Rightarrow> string" where
  "zfill k s = replicate (k - length s) CHR ''0'' @ s"

fun format_8f :: "pyfloat \<Rightarrow> string" where
  "format_8f (Fin q) =
     (let m = nat (round_half_even (\<bar>q\<bar> * 10 ^ 8))
      in (if q < 0 then ''-'' else '''') @ str_nat (m div 10 ^ 8) @ ''.''
         @ zfill 8 (str_nat (m mod 10 ^ 8)))"
| "format_8f PInf = ''inf''"
| "format_8f NInf = ''-inf''"
| "format_8f NaN = ''nan''"

text \<open>
  \<^verbatim>\<open>
  def print_graph(key):
      print('multigraph enviro_{}'.format(key))

  def print_value(data, key):
      print('{}.value {:.8f}'.format(key, data[key]))

  def print_graph_value(data, key):
      print_graph(key)
      print_value(data, key)
      print('')
  \<close>
\<close>

definition print_graph :: "string \<Rightarrow> 'w stmt" where
  "print_graph key = print (''multigraph enviro_'' @ key)"

definition print_value :: "(string \<rightharpoonup> pyfloat) \<Rightarrow> string \<Rightarrow> 'w stmt" where
  "print_value data key p =
     (case data key of
        None \<Rightarrow> (Inl (KeyError key), p)
      | Some v \<Rightarrow> print (key @ ''.value '' @ format_8f v) p)"

definition print_graph_value :: "(string \<rightharpoonup> pyfloat) \<Rightarrow> string \<Rightarrow> 'w stmt" where
  "print_graph_value data key = block [print_graph key, print_value data key, print '''']"

text \<open>
  \<^verbatim>\<open>
  def fetch():
      read_init()
      data = {}
      data.update(read_bme280())
      data.update(read_ltr559())
      data.update(read_gas())
      data.update(read_noise())

      print_graph('temperature')
      print_value(data, 'temperature')
      print_value(data, 'raw_temperature')
      print_value(data, 'cpu_temperature')
      print('')

      print_graph('humidity')
      print_value(data, 'humidity')
      print_value(data, 'raw_humidity')
      print('')

      print_graph_value(data, 'pressure')

      print_graph_value(data, 'altitude')

      print_graph_value(data, 'light')

      print_graph('gas')
      print_value(data, 'oxidising')
      print_value(data, 'reducing')
      print_value(data, 'nh3')
      print('')

      print_graph('noise')
      print_value(data, 'low')
      print_value(data, 'mid')
      print_value(data, 'high')
      print_value(data, 'amp')
  \<close>
\<close>

definition fetch :: "nat \<Rightarrow> 'w drivers \<Rightarrow> 'w stmt" where
  "fetch n drv p =
     (let w0 = read_init drv (world p)
      in case read_bme280 n drv w0 of
           (Inl e, w1) \<Rightarrow> (Inl e, p\<lparr>world := w1\<rparr>)
         | (Inr d1, w1) \<Rightarrow>
        (case read_ltr559 n drv w1 of
           (Inl e, w2) \<Rightarrow> (Inl e, p\<lparr>world := w2\<rparr>)
         | (Inr d2, w2) \<Rightarrow>
        (case read_gas n drv w2 of
           (Inl e, w3) \<Rightarrow> (Inl e, p\<lparr>world := w3\<rparr>)
         | (Inr d3, w3) \<Rightarrow>
        (case read_noise n drv w3 of
           (Inl e, w4) \<Rightarrow> (Inl e, p\<lparr>world := w4\<rparr>)
         | (Inr d4, w4) \<Rightarrow>
        (let data = Map.empty ++ d1 ++ d2 ++ d3 ++ d4
         in block
              [print_graph ''temperature'',
               print_value data ''temperature'',
               print_value data ''raw_temperature'',
               print_value data ''cpu_temperature'',
               print '''',
               print_graph ''humidity'',
               print_value data ''humidity'',
               print_value data ''raw_humidity'',
               print '''',
               print_graph_value data ''pressure'',
               print_graph_value data ''altitude'',
               print_graph_value data ''light'',
               print_graph ''gas'',
               print_value data ''oxidising'',
               print_value data ''reducing'',
               print_value data ''nh3'',
               print '''',
               print_graph ''noise'',
               print_value data ''low'',
               print_value data ''mid'',
               print_value data ''high'',
               print_value data ''amp'']
              (p\<lparr>world := w4\<rparr>))))))"

text \<open>
  \<^verbatim>\<open>
  def print_graph_config(key, title, vlabel, zero_limit=False):
      print('multigraph enviro_{}'.format(key))
      print('graph_title {}'.format(title))
      print('graph_vlabel {}'.format(vlabel))
      print('graph_category environment')
      if zero_limit:
          print('graph_args --base 1000 --lower-limit 0')
      else:
          print('graph_args --base 1000')

  def print_value_config(key, title):
      print('{}.label {}'.format(key, title))
  \<close>
\<close>

definition print_graph_config :: "string \<Rightarrow> string \<Rightarrow> string \<Rightarrow> bool \<Rightarrow> 'w stmt" where
  "print_graph_config key title vlabel zero_limit =
     block
       [print (''multigraph enviro_'' @ key),
        print (''graph_title '' @ title),
        print (''graph_vlabel '' @ vlabel),
        print ''graph_category environment'',
        if zero_limit then print ''graph_args --base 1000 --lower-limit 0''
        else print ''graph_args --base 1000'']"

definition print_value_config :: "string \<Rightarrow> string \<Rightarrow> 'w stmt" where
  "print_value_config key title = print (key @ ''.label '' @ title)"

text \<open>
  \<open>config\<close> calls \<^verbatim>\<open>print_graph_config\<close> with three arguments each time, so
  \<^verbatim>\<open>zero_limit\<close> has its default \<^verbatim>\<open>False\<close>; \<open>env\<close> is \<^verbatim>\<open>os.environ\<close>.
  \<^verbatim>\<open>
  def config():
      print_graph_config('temperature', 'Temperature', 'C')
      print_value_config('temperature', 'Temperature')
      print_value_config('raw_temperature', 'Raw Temperature')
      print_value_config('cpu_temperature', 'CPU Temperature')
      print('')
      print_graph_config('humidity', 'Humidity', '%RH')
      print_value_config('humidity', 'Humidity')
      print_value_config('raw_humidity', 'Raw Humidity')
      print('')
      print_graph_config('pressure', 'Pressure', 'hPa')
      print_value_config('pressure', 'Pressure')
      print('')
      print_graph_config('altitude', 'Altitude', 'm')
      print_value_config('altitude', 'Altitude')
      print('')
      print_graph_config('light', 'Light', 'Lux')
      print_value_config('light', 'Light')
      print('')
      print_graph_config('gas', 'Gas', 'kO')
      print_value_config('oxidising', 'Oxidising')
      print_value_config('reducing', 'Reducing')
      print_value_config('nh3', 'NH3')
      print('')
      print_graph_config('noise', 'Noise', 'amp')
      print_value_config('low', 'Low')
      print_value_config('mid', 'Mid')
      print_value_config('high', 'High')
      print_value_config('amp', 'Amp')
      print('')

      if os.environ.get('MUNIN_CAP_DIRTYCONFIG') == '1':
          fetch()
  \<close>
\<close>

definition config :: "nat \<Rightarrow> 'w drivers \<Rightarrow> (string \<rightharpoonup> string) \<Rightarrow> 'w stmt" where
  "config n drv env =
     block
       [print_graph_config ''temperature'' ''Temperature'' ''C'' False,
        print_value_config ''temperature'' ''Temperature'',
        print_value_config ''raw_temperature'' ''Raw Temperature'',
        print_value_config ''cpu_temperature'' ''CPU Temperature'',
        print '''',
        print_graph_config ''humidity'' ''Humidity'' ''%RH'' False,
        print_value_config ''humidity'' ''Humidity'',
        print_value_config ''raw_humidity'' ''Raw Humidity'',
        print '''',
        print_graph_config ''pressure'' ''Pressure'' ''hPa'' False,
        print_value_config ''pressure'' ''Pressure'',
        print '''',
        print_graph_config ''altitude'' ''Altitude'' ''m'' False,
        print_value_config ''altitude'' ''Altitude'',
        print '''',
        print_graph_config ''light'' ''Light'' ''Lux'' False,
        print_value_config ''light'' ''Light'',
        print '''',
        print_graph_config ''gas'' ''Gas'' ''kO'' False,
        print_value_config ''oxidising'' ''Oxidising'',
        print_value_config ''reducing'' ''Reducing'',
        print_value_config ''nh3'' ''NH3'',
        print '''',
        print_graph_config ''noise'' ''Noise'' ''amp'' False,
        print_value_config ''low'' ''Low'',
        print_value_config ''mid'' ''Mid'',
        print_value_config ''high'' ''High'',
        print_value_config ''amp'' ''Amp'',
        print '''',
        if env ''MUNIN_CAP_DIRTYCONFIG'' = Some ''1'' then fetch n drv else block []]"

text \<open>
  \<open>argv\<close> is \<^verbatim>\<open>sys.argv\<close>. The result is the exit status and the final process: the
  \<^verbatim>\<open>exit(0)\<close> that ends the module is reached when nothing was raised, and an exception
  nobody catches ends the interpreter with status 1.
  \<^verbatim>\<open>
  if __name__ == '__main__':
      if len(sys.argv) > 1 and sys.argv[1] == 'autoconf':
          print('yes')
      elif len(sys.argv) > 1 and sys.argv[1] == 'config':
          config()
      else:
          fetch()

  exit(0)
  \<close>
\<close>

definition main ::
  "nat \<Rightarrow> 'w drivers \<Rightarrow> string list \<Rightarrow> (string \<rightharpoonup> string) \<Rightarrow> 'w process \<Rightarrow> nat \<times> 'w process" where
  "main n drv argv env p =
     (let (r, p') =
            (if 1 < length argv \<and> argv ! 1 = ''autoconf'' then print ''yes'' p
             else if 1 < length argv \<and> argv ! 1 = ''config'' then config n drv env p
             else fetch n drv p)
      in (case r of Inl e \<Rightarrow> 1 | Inr u \<Rightarrow> 0, p'))"

definition start :: "'w \<Rightarrow> 'w process" where
  "start w = \<lparr>world = w, stdout = []\<rparr>"

section \<open>The output formats of the specification\<close>

text \<open>
  The metric groups and their member keys, in emission order, and the value report the
  specification describes: for each group a header, one value line per member, and a
  blank line.
\<close>

definition groups :: "(string \<times> string list) list" where
  "groups =
     [(''temperature'', [''temperature'', ''raw_temperature'', ''cpu_temperature'']),
      (''humidity'', [''humidity'', ''raw_humidity'']),
      (''pressure'', [''pressure'']),
      (''altitude'', [''altitude'']),
      (''light'', [''light'']),
      (''gas'', [''oxidising'', ''reducing'', ''nh3'']),
      (''noise'', [''low'', ''mid'', ''high'', ''amp''])]"

definition value_line :: "(string \<Rightarrow> pyfloat) \<Rightarrow> string \<Rightarrow> string" where
  "value_line vals key = key @ ''.value '' @ format_8f (vals key)"

definition group_report :: "(string \<Rightarrow> pyfloat) \<Rightarrow> string \<times> string list \<Rightarrow> string list" where
  "group_report vals = (\<lambda>(g, keys). (''multigraph enviro_'' @ g) # map (value_line vals) keys @ [''''])"

definition value_report :: "(string \<Rightarrow> pyfloat) \<Rightarrow> string list" where
  "value_report vals = concat (map (group_report vals) groups)"

text \<open>
  The config text: for each group a header, its title, its unit label, the category, the
  graph-scaling directive (with the lower limit when \<open>zero\<close> holds), one label line per
  member, and a blank line.
\<close>

definition group_titles :: "(string \<times> string \<times> string \<times> (string \<times> string) list) list" where
  "group_titles =
     [(''temperature'', ''Temperature'', ''C'',
         [(''temperature'', ''Temperature''), (''raw_temperature'', ''Raw Temperature''),
          (''cpu_temperature'', ''CPU Temperature'')]),
      (''humidity'', ''Humidity'', ''%RH'',
         [(''humidity'', ''Humidity''), (''raw_humidity'', ''Raw Humidity'')]),
      (''pressure'', ''Pressure'', ''hPa'', [(''pressure'', ''Pressure'')]),
      (''altitude'', ''Altitude'', ''m'', [(''altitude'', ''Altitude'')]),
      (''light'', ''Light'', ''Lux'', [(''light'', ''Light'')]),
      (''gas'', ''Gas'', ''kO'',
         [(''oxidising'', ''Oxidising''), (''reducing'', ''Reducing''), (''nh3'', ''NH3'')]),
      (''noise'', ''Noise'', ''amp'',
         [(''low'', ''Low''), (''mid'', ''Mid''), (''high'', ''High''), (''amp'', ''Amp'')])]"

definition group_config ::
  "bool \<Rightarrow> string \<times> string \<times> string \<times> (string \<times> string) list \<Rightarrow> string list" where
  "group_config zero =
     (\<lambda>(g, title, vlabel, members).
        [''multigraph enviro_'' @ g,
         ''graph_title '' @ title,
         ''graph_vlabel '' @ vlabel,
         ''graph_category environment'',
         if zero then ''graph_args --base 1000 --lower-limit 0'' else ''graph_args --base 1000'']
        @ map (\<lambda>(key, label). key @ ''.label '' @ label) members @ [''''])"

definition config_report :: "bool \<Rightarrow> string list" where
  "config_report zero = concat (map (group_config zero) group_titles)"

text \<open>Lines that start with, or contain, a given text.\<close>

fun is_prefix :: "string \<Rightarrow> string \<Rightarrow> bool" where
  "is_prefix [] l = True"
| "is_prefix (c # cs) [] = False"
| "is_prefix (c # cs) (d # ds) = (c = d \<and> is_prefix cs ds)"

fun is_infix :: "string \<Rightarrow> string \<Rightarrow> bool" where
  "is_infix pat [] = (pat = [])"
| "is_infix pat (c # cs) = (is_prefix pat (c # cs) \<or> is_infix pat cs)"

definition is_value_line :: "string \<Rightarrow> bool" where
  "is_value_line l = is_infix ''.value '' l"

definition is_graph_args :: "string \<Rightarrow> bool" where
  "is_graph_args l = is_prefix ''graph_args'' l"

text \<open>
  The three terminal behaviours, and the one the first positional argument selects.
\<close>

datatype behaviour = Discovery | Config_mode | Value_report

definition first_argument :: "string list \<Rightarrow> string option" where
  "first_argument argv = (if 1 < length argv then Some (argv ! 1) else None)"

definition selected :: "string option \<Rightarrow> behaviour" where
  "selected a =
     (if a = Some ''autoconf'' then Discovery
      else if a = Some ''config'' then Config_mode
      else Value_report)"

fun perform ::
  "behaviour \<Rightarrow> nat \<Rightarrow> 'w drivers \<Rightarrow> (string \<rightharpoonup> string) \<Rightarrow> 'w stmt" where
  "perform Discovery n drv env = print ''yes''"
| "perform Config_mode n drv env = config n drv env"
| "perform Value_report n drv env = fetch n drv"

definition exit_status :: "(error + unit) \<times> 'w process \<Rightarrow> nat \<times> 'w process" where
  "exit_status = (\<lambda>(r, p). (case r of Inl e \<Rightarrow> 1 | Inr u \<Rightarrow> 0, p))"

text \<open>
  A test bench: every sensor returns a fixed reading, and the state of the world counts
  the driver calls made so far.
\<close>

definition bench :: "nat drivers" where
  "bench =
     \<lparr>thermal_zone0_temp = (\<lambda>w. (45000, Suc w)),
      update_sensor = Suc,
      get_temperature = (\<lambda>w. (Fin 25, Suc w)),
      get_humidity = (\<lambda>w. (Fin 40, Suc w)),
      get_pressure = (\<lambda>w. (Fin 1000, Suc w)),
      get_altitude = (\<lambda>w. (Fin 100, Suc w)),
      get_lux = (\<lambda>w. (Fin 50, Suc w)),
      read_all = (\<lambda>w. (\<lparr>oxidising = Fin 20000, reducing = Fin 300000, nh3 = Fin 100000\<rparr>, Suc w)),
      get_noise_profile = (\<lambda>w. ((Fin 0, Fin 0, Fin 0, Fin 0), Suc w)),
      sleep = (\<lambda>d w. w)\<rparr>"

text \<open>The environment with and without the dirty-config flag.\<close>

definition dirty :: "string \<rightharpoonup> string" where
  "dirty = [''MUNIN_CAP_DIRTYCONFIG'' \<mapsto> ''1'']"

definition clean :: "string \<rightharpoonup> string" where
  "clean = Map.empty"

section \<open>Evaluating float arithmetic\<close>

lemma floor_rat_numeral_div [simp]:
  "\<lfloor>numeral a / numeral b :: rat\<rfloor> = numeral a div numeral b"
  by (metis floor_divide_of_int_eq of_int_numeral)

lemma ceiling_rat_numeral_div [simp]:
  "\<lceil>numeral a / numeral b :: rat\<rceil> = - ((- numeral a) div numeral b)"
  by (metis ceiling_divide_eq_div of_int_numeral)

lemma floor_rat_one_div [simp]:
  "\<lfloor>1 / numeral b :: rat\<rfloor> = 1 div numeral b"
  by (metis floor_divide_of_int_eq of_int_numeral of_int_1)

lemma ceiling_rat_one_div [simp]:
  "\<lceil>1 / numeral b :: rat\<rceil> = - ((- 1) div numeral b)"
  by (metis ceiling_divide_eq_div of_int_numeral of_int_1)

lemma bit_length_0 [simp]: "bit_length 0 = 0"
  by (simp add: bit_length.simps)

lemma bit_length_1 [simp]: "bit_length (Suc 0) = 1"
  by (simp add: bit_length.simps)

lemma bit_length_numeral [simp]:
  "bit_length (numeral k) = Suc (bit_length (numeral k div 2))"
  by (subst bit_length.simps) simp

lemmas float_eval =
  round_b64_def ilog2_def pow2_def round_half_even_def is_double_def float_of_int_def
  fmin_def Let_def

lemma round_b64_0 [simp]: "round_b64 0 = Fin 0"
  by (simp add: round_b64_def)

text \<open>The model agrees with the well-known values of Python's arithmetic.\<close>

lemma one_tenth: "round_b64 (1 / 10) = Fin (3602879701896397 / 2 ^ 55)"
  by (simp add: float_eval)

lemma tenth_plus_fifth:
  "fadd (Fin (3602879701896397 / 2 ^ 55)) (Fin (3602879701896397 / 2 ^ 54))
   = Fin (5404319552844596 / 2 ^ 54)"
  by (simp add: float_eval)

section \<open>The sliding window\<close>

lemma sample_loop_reads:
  "vs \<noteq> [] \<Longrightarrow>
   sample_loop slp func i vs w = (drop i (vs @ fst (reads slp func i w)), snd (reads slp func i w))"
proof (induction i arbitrary: vs w)
  case 0
  then show ?case by simp
next
  case (Suc i)
  obtain x w2 where f: "func (slp (1 / 10) w) = (x, w2)"
    by (cases "func (slp (1 / 10) w)")
  obtain xs w3 where r: "reads slp func i w2 = (xs, w3)"
    by (cases "reads slp func i w2")
  have ne: "drop 1 vs @ [x] \<noteq> []"
    by simp
  from Suc.prems have d: "drop 1 (vs @ x # xs) = (drop 1 vs @ [x]) @ xs"
    by (cases vs) simp_all
  have "drop (Suc i) (vs @ x # xs) = drop i (drop 1 (vs @ x # xs))"
    by (metis drop_drop Suc_eq_plus1)
  with d have e: "drop (Suc i) (vs @ x # xs) = drop i ((drop 1 vs @ [x]) @ xs)"
    by (simp only:)
  have "sample_loop slp func (Suc i) vs w = sample_loop slp func i (drop 1 vs @ [x]) w2"
    by (simp add: f)
  also have "\<dots> = (drop i ((drop 1 vs @ [x]) @ xs), w3)"
    using Suc.IH [OF ne, of w2] r by simp
  also have "\<dots> = (drop (Suc i) (vs @ x # xs), w3)"
    by (simp only: e)
  finally show ?case
    by (simp add: f r)
qed

lemma length_reads: "length (fst (reads slp func i w)) = i"
  by (induction i arbitrary: w) (simp_all add: Let_def case_prod_beta)

lemma sample_reads:
  "sample n slp func w =
     (avg (fst (reads slp func n (snd (func w)))), snd (reads slp func n (snd (func w))))"
proof (cases n)
  case 0
  then show ?thesis
    by (simp add: sample_def Let_def case_prod_beta)
next
  case (Suc m)
  obtain x w0 where f: "func w = (x, w0)"
    by (cases "func w")
  have ne: "replicate n x \<noteq> []"
    using Suc by simp
  have "drop n (replicate n x @ fst (reads slp func n w0)) = fst (reads slp func n w0)"
    by simp
  with sample_loop_reads [OF ne, of slp func n w0] f show ?thesis
    by (simp add: sample_def Let_def case_prod_beta)
qed


lemma reads_counted:
  "reads (uncounted slp) (counted func) i (k, w)
     = (fst (reads slp func i w), (k + i, snd (reads slp func i w)))"
  by (induction i arbitrary: k w)
     (simp_all add: Let_def case_prod_beta counted_def uncounted_def)

lemma reads_replay:
  "reads idle (replay xs) i k = (map xs [k..<k + i], k + i)"
proof (induction i arbitrary: k)
  case 0
  then show ?case by simp
next
  case (Suc i)
  have "[k..<k + Suc i] = k # [Suc k..<Suc k + i]"
    by (simp add: upt_conv_Cons)
  with Suc [of "Suc k"] show ?case
    by (simp add: replay_def idle_def Let_def)
qed

lemma reads_constant:
  "fst (reads slp (constant_read v step) i w) = replicate i v"
  by (induction i arbitrary: w) (simp_all add: Let_def case_prod_beta constant_read_def)

lemma sums_double_numeral [simp]:
  "sums_double (numeral k) q
     = (is_double (numeral k * q) \<and> sums_double (pred_numeral k) q)"
proof -
  have "of_nat (Suc (pred_numeral k)) = (numeral k :: rat)"
    by (metis of_nat_numeral numeral_eq_Suc)
  then have "sums_double (Suc (pred_numeral k)) q
     = (is_double (numeral k * q) \<and> sums_double (pred_numeral k) q)"
    by (simp only: sums_double.simps)
  then show ?thesis
    by (simp only: numeral_eq_Suc)
qed

lemma sums_double_at:
  "sums_double n q \<Longrightarrow> k < n \<Longrightarrow> is_double (of_nat (Suc k) * q)"
proof (induction n)
  case 0
  then show ?case by simp
next
  case (Suc n)
  then show ?case
    by (cases "k = n") simp_all
qed

lemma fsum_exact:
  "sums_double (j + m) q \<Longrightarrow>
   foldl fadd (Fin (of_nat j * q)) (replicate m (Fin q)) = Fin (of_nat (j + m) * q)"
proof (induction m arbitrary: j)
  case 0
  then show ?case by simp
next
  case (Suc m)
  from Suc.prems have a: "is_double (of_nat (Suc j) * q)"
    by (intro sums_double_at [of "j + Suc m"]) simp_all
  from Suc.prems have b: "sums_double (Suc j + m) q"
    by simp
  have "of_nat j * q + q = of_nat (Suc j) * q"
    by (simp add: algebra_simps)
  with a have "fadd (Fin (of_nat j * q)) (Fin q) = Fin (of_nat (Suc j) * q)"
    by (simp add: is_double_def)
  with Suc.IH [OF b] show ?case
    by simp
qed

lemma avg_exact:
  assumes "1 \<le> n" "sums_exact n q"
  shows "avg (replicate n (Fin q)) = Inr (Fin q)"
proof -
  from assms have n: "round_b64 (of_nat n) = Fin (of_nat n)" and l: "sums_double (0 + n) q"
    by (simp_all add: sums_exact_def is_double_def)
  from assms(1) l sums_double_at [of n q 0] have q: "round_b64 q = Fin q"
    by (simp add: is_double_def)
  from fsum_exact [OF l] have s: "fsum (replicate n (Fin q)) = Fin (of_nat n * q)"
    by (simp add: fsum_def)
  from assms(1) have "of_nat n * q / of_nat n = q"
    by simp
  with assms(1) n q s show ?thesis
    by (simp add: avg_def float_of_int_def)
qed

lemma avg_three:
  assumes "fadd (Fin 0) (Fin t) = Fin t1" "fadd (Fin t1) (Fin t) = Fin t2"
    "fadd (Fin t2) (Fin t) = Fin t3" "float_of_int 3 = Fin 3" "fdiv (Fin t3) (Fin 3) = r"
  shows "avg (replicate 3 (Fin t)) = Inr r"
  using assms by (simp add: avg_def fsum_def numeral_3_eq_3)

lemma avg_tenth:
  "avg (replicate 3 (Fin (3602879701896397 / 2 ^ 55))) = Inr (Fin (7205759403792795 / 2 ^ 56))"
proof (rule avg_three [where ?t1.0 = "3602879701896397 / 2 ^ 55"
      and ?t2.0 = "3602879701896397 / 2 ^ 54" and ?t3.0 = "5404319552844596 / 2 ^ 54"])
  show "fadd (Fin 0) (Fin (3602879701896397 / 2 ^ 55)) = Fin (3602879701896397 / 2 ^ 55)"
    by (simp add: float_eval)
  show "fadd (Fin (3602879701896397 / 2 ^ 55)) (Fin (3602879701896397 / 2 ^ 55))
    = Fin (3602879701896397 / 2 ^ 54)"
    by (simp add: float_eval)
  show "fadd (Fin (3602879701896397 / 2 ^ 54)) (Fin (3602879701896397 / 2 ^ 55))
    = Fin (5404319552844596 / 2 ^ 54)"
    by (simp add: float_eval)
  show "float_of_int 3 = Fin 3"
    by (simp add: float_eval)
  show "fdiv (Fin (5404319552844596 / 2 ^ 54)) (Fin 3) = Fin (7205759403792795 / 2 ^ 56)"
    by (simp add: float_eval)
qed


section \<open>The reads succeed\<close>

lemma avg_nonempty: "vs \<noteq> [] \<Longrightarrow> \<exists>v. avg vs = Inr v"
  by (simp add: avg_def)

lemma sample_ok: "1 \<le> n \<Longrightarrow> \<exists>v w'. sample n slp func w = (Inr v, w')"
proof -
  assume n: "1 \<le> n"
  have "length (fst (reads slp func n (snd (func w)))) = n"
    by (rule length_reads)
  with n have "fst (reads slp func n (snd (func w))) \<noteq> []"
    by auto
  then obtain v where "avg (fst (reads slp func n (snd (func w)))) = Inr v"
    using avg_nonempty by blast
  then show ?thesis
    by (simp add: sample_reads)
qed

lemma bme280_loop_nonempty:
  "a \<noteq> [] \<Longrightarrow> b \<noteq> [] \<Longrightarrow> c \<noteq> [] \<Longrightarrow>
   \<exists>a' b' c' w'. bme280_loop drv i (a, b, c) w = ((a', b', c'), w')
      \<and> a' \<noteq> [] \<and> b' \<noteq> [] \<and> c' \<noteq> []"
proof (induction i arbitrary: a b c w)
  case 0
  then show ?case by simp
next
  case (Suc i)
  have "drop 1 a @ [x] \<noteq> []" "drop 1 b @ [y] \<noteq> []" "drop 1 c @ [z] \<noteq> []" for x y z
    by simp_all
  from Suc.IH [OF this] show ?case
    by (simp add: Let_def case_prod_beta)
qed

lemma gas_loop_nonempty:
  "a \<noteq> [] \<Longrightarrow> b \<noteq> [] \<Longrightarrow> c \<noteq> [] \<Longrightarrow>
   \<exists>a' b' c' w'. gas_loop drv i (a, b, c) w = ((a', b', c'), w')
      \<and> a' \<noteq> [] \<and> b' \<noteq> [] \<and> c' \<noteq> []"
proof (induction i arbitrary: a b c w)
  case 0
  then show ?case by simp
next
  case (Suc i)
  have "drop 1 a @ [x] \<noteq> []" "drop 1 b @ [y] \<noteq> []" "drop 1 c @ [z] \<noteq> []" for x y z
    by simp_all
  from Suc.IH [OF this] show ?case
    by (simp add: Let_def case_prod_beta)
qed

lemma noise_loop_nonempty:
  "a \<noteq> [] \<Longrightarrow> b \<noteq> [] \<Longrightarrow> c \<noteq> [] \<Longrightarrow> d \<noteq> [] \<Longrightarrow>
   \<exists>a' b' c' d' w'. noise_loop drv i (a, b, c, d) w = ((a', b', c', d'), w')
      \<and> a' \<noteq> [] \<and> b' \<noteq> [] \<and> c' \<noteq> [] \<and> d' \<noteq> []"
proof (induction i arbitrary: a b c d w)
  case 0
  then show ?case by simp
next
  case (Suc i)
  have "drop 1 a @ [x] \<noteq> []" "drop 1 b @ [y] \<noteq> []" "drop 1 c @ [z] \<noteq> []"
    "drop 1 d @ [u] \<noteq> []" for x y z u
    by simp_all
  from Suc.IH [OF this] show ?case
    by (simp add: Let_def case_prod_beta)
qed

lemma read_bme280_ok:
  assumes "1 \<le> n"
  shows "\<exists>t h p a c rt rh w'. read_bme280 n drv w =
    (Inr [''temperature'' \<mapsto> t, ''humidity'' \<mapsto> h, ''pressure'' \<mapsto> p, ''altitude'' \<mapsto> a,
          ''cpu_temperature'' \<mapsto> c, ''raw_temperature'' \<mapsto> rt, ''raw_humidity'' \<mapsto> rh], w')"
proof -
  obtain c0 w1 where r1: "get_cpu_temperature drv w = (c0, w1)"
    by (cases "get_cpu_temperature drv w")
  obtain t0 w2 where r2: "get_temperature drv w1 = (t0, w2)"
    by (cases "get_temperature drv w1")
  obtain h0 w3 where r3: "get_humidity drv w2 = (h0, w3)"
    by (cases "get_humidity drv w2")
  from assms have "replicate n c0 \<noteq> []" "replicate n t0 \<noteq> []" "replicate n h0 \<noteq> []"
    by auto
  from bme280_loop_nonempty [OF this, of drv n w3] obtain cs ts hs w4 where
    l: "bme280_loop drv n (replicate n c0, replicate n t0, replicate n h0) w3 = ((cs, ts, hs), w4)"
    and ne: "cs \<noteq> []" "ts \<noteq> []" "hs \<noteq> []"
    by blast
  from ne avg_nonempty [of cs] avg_nonempty [of ts] avg_nonempty [of hs] obtain c rt rh where
    a: "avg cs = Inr c" "avg ts = Inr rt" "avg hs = Inr rh"
    by blast
  from sample_ok [OF assms, of "sleep drv" "get_pressure drv" w4] obtain p w5 where
    s1: "sample n (sleep drv) (get_pressure drv) w4 = (Inr p, w5)"
    by blast
  from sample_ok [OF assms, of "sleep drv" "get_altitude drv" w5] obtain al w6 where
    s2: "sample n (sleep drv) (get_altitude drv) w5 = (Inr al, w6)"
    by blast
  have "read_bme280 n drv w =
    (Inr [''temperature'' \<mapsto> correct_temperature rt c,
          ''humidity'' \<mapsto> correct_humidity rh rt (correct_temperature rt c),
          ''pressure'' \<mapsto> p, ''altitude'' \<mapsto> al,
          ''cpu_temperature'' \<mapsto> c, ''raw_temperature'' \<mapsto> rt, ''raw_humidity'' \<mapsto> rh], w6)"
    by (simp add: read_bme280_def r1 r2 r3 l a s1 s2 Let_def)
  then show ?thesis
    by blast
qed

lemma read_ltr559_ok:
  assumes "1 \<le> n"
  shows "\<exists>l w'. read_ltr559 n drv w = (Inr [''light'' \<mapsto> l], w')"
proof -
  from sample_ok [OF assms, of "sleep drv" "get_lux drv" w] obtain l w' where
    "sample n (sleep drv) (get_lux drv) w = (Inr l, w')"
    by blast
  then have "read_ltr559 n drv w = (Inr [''light'' \<mapsto> l], w')"
    by (simp add: read_ltr559_def)
  then show ?thesis
    by blast
qed

lemma read_gas_ok:
  assumes "1 \<le> n"
  shows "\<exists>ox re nh w'. read_gas n drv w =
    (Inr [''oxidising'' \<mapsto> ox, ''reducing'' \<mapsto> re, ''nh3'' \<mapsto> nh], w')"
proof -
  obtain d w3 where r: "read_all drv (sleep drv (1 / 5) (snd (read_all drv w))) = (d, w3)"
    by (cases "read_all drv (sleep drv (1 / 5) (snd (read_all drv w)))")
  from assms have "replicate n (fdiv (oxidising d) (Fin 1000)) \<noteq> []"
    "replicate n (fdiv (reducing d) (Fin 1000)) \<noteq> []"
    "replicate n (fdiv (nh3 d) (Fin 1000)) \<noteq> []"
    by auto
  from gas_loop_nonempty [OF this, of drv n w3] obtain os rs ns w4 where
    l: "gas_loop drv n (replicate n (fdiv (oxidising d) (Fin 1000)),
          replicate n (fdiv (reducing d) (Fin 1000)),
          replicate n (fdiv (nh3 d) (Fin 1000))) w3 = ((os, rs, ns), w4)"
    and ne: "os \<noteq> []" "rs \<noteq> []" "ns \<noteq> []"
    by blast
  from ne avg_nonempty [of os] avg_nonempty [of rs] avg_nonempty [of ns] obtain ox re nh where
    a: "avg os = Inr ox" "avg rs = Inr re" "avg ns = Inr nh"
    by blast
  have "read_gas n drv w =
    (Inr [''oxidising'' \<mapsto> ox, ''reducing'' \<mapsto> re, ''nh3'' \<mapsto> nh], w4)"
    by (simp add: read_gas_def r l a Let_def)
  then show ?thesis
    by blast
qed

lemma read_noise_ok:
  assumes "1 \<le> n"
  shows "\<exists>lo mi hi am w'. read_noise n drv w =
    (Inr [''low'' \<mapsto> lo, ''mid'' \<mapsto> mi, ''high'' \<mapsto> hi, ''amp'' \<mapsto> am], w')"
proof -
  obtain l0 m0 h0 a0 w1 where r: "get_noise_profile drv w = ((l0, m0, h0, a0), w1)"
    by (metis prod.exhaust)
  from assms have "replicate n l0 \<noteq> []" "replicate n m0 \<noteq> []" "replicate n h0 \<noteq> []"
    "replicate n a0 \<noteq> []"
    by auto
  from noise_loop_nonempty [OF this, of drv n w1] obtain ls ms hs as w2 where
    l: "noise_loop drv n (replicate n l0, replicate n m0, replicate n h0, replicate n a0) w1
          = ((ls, ms, hs, as), w2)"
    and ne: "ls \<noteq> []" "ms \<noteq> []" "hs \<noteq> []" "as \<noteq> []"
    by blast
  from ne avg_nonempty [of ls] avg_nonempty [of ms] avg_nonempty [of hs] avg_nonempty [of as]
  obtain lo mi hi am where
    a: "avg ls = Inr lo" "avg ms = Inr mi" "avg hs = Inr hi" "avg as = Inr am"
    by blast
  have "read_noise n drv w =
    (Inr [''low'' \<mapsto> lo, ''mid'' \<mapsto> mi, ''high'' \<mapsto> hi, ''amp'' \<mapsto> am], w2)"
    by (simp add: read_noise_def r l a Let_def)
  then show ?thesis
    by blast
qed

section \<open>What is printed\<close>

lemma block_print [simp]:
  "block (print s # ss) p = block ss (p\<lparr>stdout := stdout p @ [s]\<rparr>)"
  by (simp add: print_def)

lemma block_block [simp]: "block (block ss # ts) p = block (ss @ ts) p"
proof (induction ss arbitrary: p)
  case Nil
  then show ?case by simp
next
  case (Cons a ss)
  obtain r p' where a: "a p = (r, p')"
    by (cases "a p")
  show ?case
  proof (cases r)
    case (Inl e)
    with a show ?thesis by simp
  next
    case (Inr u)
    with a have "block (block (a # ss) # ts) p = block (block ss # ts) p'"
      by simp
    also have "\<dots> = block (ss @ ts) p'"
      by (rule Cons.IH)
    also from a Inr have "\<dots> = block ((a # ss) @ ts) p"
      by simp
    finally show ?thesis .
  qed
qed

lemma block_single: "block [s] p = s p"
  by (cases "s p"; cases "fst (s p)") auto

lemma block_print_value [simp]:
  "data key = Some v \<Longrightarrow>
   block (print_value data key # ss) p
     = block ss (p\<lparr>stdout := stdout p @ [key @ ''.value '' @ format_8f v]\<rparr>)"
  by (simp add: print_value_def print_def)

declare block.simps(2) [simp del]

lemma config_prints:
  "config n drv env p =
     (if env ''MUNIN_CAP_DIRTYCONFIG'' = Some ''1'' then fetch n drv else block [])
       (p\<lparr>stdout := stdout p @ config_report False\<rparr>)"
  by (simp add: config_def print_graph_config_def print_value_config_def block_single
      config_report_def group_titles_def group_config_def)

lemma fetch_ok:
  assumes "1 \<le> n"
  shows "\<exists>vals w'. fetch n drv p =
    (Inr (), p\<lparr>world := w', stdout := stdout p @ butlast (value_report vals)\<rparr>)"
proof -
  from read_bme280_ok [OF assms, of drv "read_init drv (world p)"]
  obtain t h pr al c rt rh w1 where r1: "read_bme280 n drv (read_init drv (world p)) =
    (Inr [''temperature'' \<mapsto> t, ''humidity'' \<mapsto> h, ''pressure'' \<mapsto> pr, ''altitude'' \<mapsto> al,
          ''cpu_temperature'' \<mapsto> c, ''raw_temperature'' \<mapsto> rt, ''raw_humidity'' \<mapsto> rh], w1)"
    by blast
  from read_ltr559_ok [OF assms, of drv w1]
  obtain l w2 where r2: "read_ltr559 n drv w1 = (Inr [''light'' \<mapsto> l], w2)"
    by blast
  from read_gas_ok [OF assms, of drv w2]
  obtain ox re nh w3 where r3: "read_gas n drv w2 =
    (Inr [''oxidising'' \<mapsto> ox, ''reducing'' \<mapsto> re, ''nh3'' \<mapsto> nh], w3)"
    by blast
  from read_noise_ok [OF assms, of drv w3]
  obtain lo mi hi am w4 where r4: "read_noise n drv w3 =
    (Inr [''low'' \<mapsto> lo, ''mid'' \<mapsto> mi, ''high'' \<mapsto> hi, ''amp'' \<mapsto> am], w4)"
    by blast
  define vals where "vals =
    (\<lambda>k. if k = ''temperature'' then t else if k = ''raw_temperature'' then rt
         else if k = ''cpu_temperature'' then c else if k = ''humidity'' then h
         else if k = ''raw_humidity'' then rh else if k = ''pressure'' then pr
         else if k = ''altitude'' then al else if k = ''light'' then l
         else if k = ''oxidising'' then ox else if k = ''reducing'' then re
         else if k = ''nh3'' then nh else if k = ''low'' then lo
         else if k = ''mid'' then mi else if k = ''high'' then hi else am)"
  have f: "fetch n drv p = (Inr (), p\<lparr>world := w4, stdout := stdout p @
     [''multigraph enviro_temperature'',
      ''temperature.value '' @ format_8f t,
      ''raw_temperature.value '' @ format_8f rt,
      ''cpu_temperature.value '' @ format_8f c,
      '''',
      ''multigraph enviro_humidity'',
      ''humidity.value '' @ format_8f h,
      ''raw_humidity.value '' @ format_8f rh,
      '''',
      ''multigraph enviro_pressure'',
      ''pressure.value '' @ format_8f pr,
      '''',
      ''multigraph enviro_altitude'',
      ''altitude.value '' @ format_8f al,
      '''',
      ''multigraph enviro_light'',
      ''light.value '' @ format_8f l,
      '''',
      ''multigraph enviro_gas'',
      ''oxidising.value '' @ format_8f ox,
      ''reducing.value '' @ format_8f re,
      ''nh3.value '' @ format_8f nh,
      '''',
      ''multigraph enviro_noise'',
      ''low.value '' @ format_8f lo,
      ''mid.value '' @ format_8f mi,
      ''high.value '' @ format_8f hi,
      ''amp.value '' @ format_8f am]\<rparr>)"
    by (simp add: fetch_def r1 r2 r3 r4 Let_def print_graph_def print_graph_value_def)
  have v: "butlast (value_report vals) =
     [''multigraph enviro_temperature'',
      ''temperature.value '' @ format_8f t,
      ''raw_temperature.value '' @ format_8f rt,
      ''cpu_temperature.value '' @ format_8f c,
      '''',
      ''multigraph enviro_humidity'',
      ''humidity.value '' @ format_8f h,
      ''raw_humidity.value '' @ format_8f rh,
      '''',
      ''multigraph enviro_pressure'',
      ''pressure.value '' @ format_8f pr,
      '''',
      ''multigraph enviro_altitude'',
      ''altitude.value '' @ format_8f al,
      '''',
      ''multigraph enviro_light'',
      ''light.value '' @ format_8f l,
      '''',
      ''multigraph enviro_gas'',
      ''oxidising.value '' @ format_8f ox,
      ''reducing.value '' @ format_8f re,
      ''nh3.value '' @ format_8f nh,
      '''',
      ''multigraph enviro_noise'',
      ''low.value '' @ format_8f lo,
      ''mid.value '' @ format_8f mi,
      ''high.value '' @ format_8f hi,
      ''amp.value '' @ format_8f am]"
    by (simp add: value_report_def groups_def group_report_def value_line_def vals_def)
  from f v have "fetch n drv p =
    (Inr (), p\<lparr>world := w4, stdout := stdout p @ butlast (value_report vals)\<rparr>)"
    by (simp only:)
  then show ?thesis
    by blast
qed

lemma str_nat_numeral [simp]:
  "str_nat (numeral k) =
     (if (numeral k :: nat) < 10 then [digit (numeral k)]
      else str_nat (numeral k div 10) @ [digit (numeral k mod 10)])"
  by (subst str_nat.simps) simp

lemma replicate_numeral: "replicate (numeral k) x = x # replicate (pred_numeral k) x"
  by (simp add: numeral_eq_Suc)

lemma str_nat_0 [simp]: "str_nat 0 = ''0''"
  by (subst str_nat.simps) (simp add: digit_def)

lemma str_nat_1 [simp]: "str_nat (Suc 0) = ''1''"
  by (subst str_nat.simps) (simp add: digit_def)

lemma format_8f_examples:
  "format_8f (Fin 10) = ''10.00000000''"
  "format_8f (Fin (- 1 / 3)) = ''-0.33333333''"
  "format_8f (Fin (3602879701896397 / 2 ^ 55)) = ''0.10000000''"
  "format_8f (Fin (1234567 / 1000)) = ''1234.56700000''"
  by (simp_all add: round_half_even_def zfill_def digit_def replicate_numeral Let_def)

lemma main_fetch:
  "main n drv [prog] env p = exit_status (fetch n drv p)"
  by (simp add: main_def exit_status_def case_prod_beta)

section \<open>The calibration formulas\<close>

lemma fmin_le: "fle (fmin (Fin 100) x) (Fin 100)"
  by (cases x) (simp_all add: fmin_def)



text \<open>
  C3. \<open>correct_humidity(H_raw, T_raw, T_corr)\<close> computes the dewpoint
  \<open>D = T_raw - (100 - H_raw) / 5\<close> and returns \<open>100 - 5 * (T_corr - D)\<close> clamped to a
  maximum of 100, so the result is at most 100 for all inputs;
  \<open>correct_humidity(100, 20, 20) = 100\<close>; and there is no minimum clamp:
  \<open>correct_humidity(0, 0, 100) = - 500\<close>.
\<close>

theorem correct_humidity_clamped:
  "correct_humidity h t c =
     fmin (Fin 100)
       (fsub (Fin 100) (fmul (Fin 5) (fsub c (fsub t (fdiv (fsub (Fin 100) h) (Fin 5))))))
   \<and> fle (correct_humidity h t c) (Fin 100)
   \<and> correct_humidity (Fin 100) (Fin 20) (Fin 20) = Fin 100
   \<and> correct_humidity (Fin 0) (Fin 0) (Fin 100) = Fin (- 500)
   \<and> flt (correct_humidity (Fin 0) (Fin 0) (Fin 100)) (Fin 0)"
proof (intro conjI)
  show "correct_humidity h t c =
     fmin (Fin 100)
       (fsub (Fin 100) (fmul (Fin 5) (fsub c (fsub t (fdiv (fsub (Fin 100) h) (Fin 5))))))"
    by (simp add: correct_humidity_def)
  show "fle (correct_humidity h t c) (Fin 100)"
    by (simp add: correct_humidity_def fmin_le)
  show "correct_humidity (Fin 100) (Fin 20) (Fin 20) = Fin 100"
    by (simp add: correct_humidity_def float_eval)
  show m: "correct_humidity (Fin 0) (Fin 0) (Fin 100) = Fin (- 500)"
    by (simp add: correct_humidity_def float_eval)
  show "flt (correct_humidity (Fin 0) (Fin 0) (Fin 100)) (Fin 0)"
    by (simp add: m)
qed

text \<open>
  C10, as stated, fails on floats: at \<open>H_raw = 0.1\<close> and \<open>T_raw = T_corr = 20\<close> the code
  returns \<open>0.09999999999999432\<close>, which is neither \<open>min(100, H_raw + 5 * (T_raw - T_corr))\<close>
  nor \<open>min(100, H_raw)\<close>; both are \<open>0.1\<close>.
\<close>

theorem correct_humidity_identity_counterexample:
  "correct_humidity (Fin (3602879701896397 / 2 ^ 55)) (Fin 20) (Fin 20)
     = Fin (3518437208883 / 2 ^ 45)
   \<and> fmin (Fin 100)
        (fadd (Fin (3602879701896397 / 2 ^ 55)) (fmul (Fin 5) (fsub (Fin 20) (Fin 20))))
     = Fin (3602879701896397 / 2 ^ 55)
   \<and> fmin (Fin 100) (Fin (3602879701896397 / 2 ^ 55)) = Fin (3602879701896397 / 2 ^ 55)
   \<and> correct_humidity (Fin (3602879701896397 / 2 ^ 55)) (Fin 20) (Fin 20)
     \<noteq> fmin (Fin 100)
         (fadd (Fin (3602879701896397 / 2 ^ 55)) (fmul (Fin 5) (fsub (Fin 20) (Fin 20))))"
proof -
  have a: "correct_humidity (Fin (3602879701896397 / 2 ^ 55)) (Fin 20) (Fin 20)
     = Fin (3518437208883 / 2 ^ 45)"
    by (simp add: correct_humidity_def float_eval)
  have b: "fmin (Fin 100)
        (fadd (Fin (3602879701896397 / 2 ^ 55)) (fmul (Fin 5) (fsub (Fin 20) (Fin 20))))
     = Fin (3602879701896397 / 2 ^ 55)"
    by (simp add: float_eval)
  have c: "fmin (Fin 100) (Fin (3602879701896397 / 2 ^ 55))
     = Fin (3602879701896397 / 2 ^ 55)"
    by (simp add: float_eval)
  show ?thesis
    unfolding a b c by simp
qed

text \<open>
  C10, amended. Whenever none of the operations of \<open>correct_humidity\<close> rounds at the
  finite inputs \<open>H_raw\<close>, \<open>T_raw\<close>, \<open>T_corr\<close>, the result is
  \<open>min(100, H_raw + 5 * (T_raw - T_corr))\<close>, and \<open>min(100, H_raw)\<close> when also
  \<open>T_corr = T_raw\<close>; and for some inputs the result is strictly negative.
\<close>

theorem correct_humidity_identity_exact:
  "(humidity_exact h t c \<longrightarrow>
      correct_humidity (Fin h) (Fin t) (Fin c) = Fin (min 100 (h + 5 * (t - c))))
   \<and> (humidity_exact h t t \<longrightarrow> correct_humidity (Fin h) (Fin t) (Fin t) = Fin (min 100 h))
   \<and> flt (correct_humidity (Fin 0) (Fin 0) (Fin 100)) (Fin 0)"
proof -
  have main: "correct_humidity (Fin h) (Fin t) (Fin c') = Fin (min 100 (h + 5 * (t - c')))"
    if "humidity_exact h t c'" for c'
  proof -
    from that have r:
      "round_b64 (100 - h) = Fin (100 - h)"
      "round_b64 ((100 - h) / 5) = Fin ((100 - h) / 5)"
      "round_b64 (t - (100 - h) / 5) = Fin (t - (100 - h) / 5)"
      "round_b64 (c' - (t - (100 - h) / 5)) = Fin (c' - (t - (100 - h) / 5))"
      "round_b64 (5 * (c' - (t - (100 - h) / 5))) = Fin (5 * (c' - (t - (100 - h) / 5)))"
      "round_b64 (100 - 5 * (c' - (t - (100 - h) / 5)))
         = Fin (100 - 5 * (c' - (t - (100 - h) / 5)))"
      unfolding humidity_exact_def is_double_def Let_def by blast+
    have e: "100 - 5 * (c' - (t - (100 - h) / 5)) = h + 5 * (t - c')"
      by (simp add: field_simps)
    have "correct_humidity (Fin h) (Fin t) (Fin c')
            = fmin (Fin 100) (Fin (100 - 5 * (c' - (t - (100 - h) / 5))))"
      by (simp only: correct_humidity_def Let_def fsub.simps fmul.simps fdiv.simps r
          rel_simps if_False)
    also have "\<dots> = Fin (min 100 (h + 5 * (t - c')))"
      unfolding e by (simp add: fmin_def min_def)
    finally show ?thesis .
  qed
  have neg: "flt (correct_humidity (Fin 0) (Fin 0) (Fin 100)) (Fin 0)"
    by (simp add: correct_humidity_def float_eval)
  from main [of c] main [of t] neg show ?thesis
    by simp
qed

theorem correct_humidity_identity_exact_witness:
  "humidity_exact 50 20 25 \<and> correct_humidity (Fin 50) (Fin 20) (Fin 25) = Fin 25
   \<and> humidity_exact 50 20 20 \<and> correct_humidity (Fin 50) (Fin 20) (Fin 20) = Fin 50"
proof -
  have a: "humidity_exact 50 20 25"
    by (simp add: humidity_exact_def float_eval)
  have b: "humidity_exact 50 20 20"
    by (simp add: humidity_exact_def float_eval)
  from a b correct_humidity_identity_exact [of 50 20 25]
    correct_humidity_identity_exact [of 50 20 20]
  show ?thesis
    by simp
qed

section \<open>The sampler averages the last reads\<close>

text \<open>
  C1, as stated, fails on floats. The window does hold the last \<open>N\<close> reads, but their
  mean is computed in binary64: for \<open>N = 3\<close> and a read operation that returns \<open>0.1\<close>
  on every call, \<open>sample\<close> returns \<open>(0.1 + 0.1 + 0.1) / 3.0 = 0.10000000000000002\<close>,
  not \<open>0.1\<close>.
\<close>

theorem sample_constant_counterexample:
  "fst (sample 3 idle (constant_read (Fin (3602879701896397 / 2 ^ 55)) id) ())
     = Inr (Fin (7205759403792795 / 2 ^ 56))
   \<and> fst (sample 3 idle (constant_read (Fin (3602879701896397 / 2 ^ 55)) id) ())
     \<noteq> Inr (Fin (3602879701896397 / 2 ^ 55))"
proof -
  have "fst (sample 3 idle (constant_read (Fin (3602879701896397 / 2 ^ 55)) id) ())
     = avg (replicate 3 (Fin (3602879701896397 / 2 ^ 55)))"
    by (simp only: sample_reads reads_constant fst_conv)
  then have a: "fst (sample 3 idle (constant_read (Fin (3602879701896397 / 2 ^ 55)) id) ())
     = Inr (Fin (7205759403792795 / 2 ^ 56))"
    by (simp only: avg_tenth)
  show ?thesis
    unfolding a by simp
qed

text \<open>
  C1, amended. For every sample count \<open>N\<close> and every sequence \<open>xs\<close> of values produced by
  successive calls of the read operation, \<open>sample\<close> returns \<open>avg\<close> of the last \<open>N\<close>
  reads: their float sum, added from left to right, divided by \<open>float(N)\<close>. For a read
  operation that returns the same \<open>v\<close> on every call this is \<open>avg\<close> of \<open>N\<close> copies of
  \<open>v\<close>; it is \<open>v\<close> exactly when \<open>N \<ge> 1\<close> and the running sums \<open>v\<close>, \<open>2 * v\<close>,
  \<dots>, \<open>N * v\<close> and \<open>N\<close> are binary64 values.
\<close>

theorem sample_mean_of_last_reads:
  "sample n idle (replay xs) k = (avg (map xs [Suc k..<Suc k + n]), Suc k + n)
   \<and> fst (sample n slp (constant_read v step) w) = avg (replicate n v)
   \<and> (1 \<le> n \<and> sums_exact n q \<longrightarrow>
        fst (sample n slp (constant_read (Fin q) step) w) = Inr (Fin q))"
proof (intro conjI impI)
  have "snd (replay xs k) = Suc k"
    by (simp add: replay_def)
  then show "sample n idle (replay xs) k = (avg (map xs [Suc k..<Suc k + n]), Suc k + n)"
    by (simp only: sample_reads reads_replay fst_conv snd_conv)
  show c: "fst (sample n slp (constant_read v step) w) = avg (replicate n v)" for v
    by (simp add: sample_reads reads_constant)
  assume "1 \<le> n \<and> sums_exact n q"
  then show "fst (sample n slp (constant_read (Fin q) step) w) = Inr (Fin q)"
    by (simp add: c avg_exact)
qed

theorem sample_mean_of_last_reads_witness:
  "1 \<le> (10::nat) \<and> sums_exact 10 (1 / 4)
   \<and> fst (sample 10 idle (constant_read (Fin (1 / 4)) id) ()) = Inr (Fin (1 / 4))"
proof -
  have s: "sums_exact 10 (1 / 4)"
    by (simp add: sums_exact_def float_eval)
  with sample_mean_of_last_reads [of 10 "\<lambda>k. NaN" 0 idle "Fin 0" id "()" "1 / 4"]
  show ?thesis
    by simp
qed

text \<open>
  C9. For every sample count \<open>N\<close>, \<open>sample\<close> calls the read operation exactly
  \<open>N + 1\<close> times: run on a read operation that counts its calls, it leaves the counter
  \<open>N + 1\<close> higher and returns what it returns without the counter. The value returned
  is \<open>avg\<close> of the \<open>N\<close> values read in the loop, which start from the state the
  pre-fill call leaves: the value the pre-fill call returned is not part of it.
\<close>

theorem sample_calls:
  "snd (sample n (uncounted slp) (counted func) (k, w)) = (k + n + 1, snd (sample n slp func w))
   \<and> fst (sample n (uncounted slp) (counted func) (k, w)) = fst (sample n slp func w)
   \<and> sample n slp func w
       = (avg (fst (reads slp func n (snd (func w)))), snd (reads slp func n (snd (func w))))
   \<and> length (fst (reads slp func n (snd (func w)))) = n"
proof (intro conjI)
  have c: "counted func (k, w) = (fst (func w), (Suc k, snd (func w)))"
    by (simp add: counted_def case_prod_beta)
  show "snd (sample n (uncounted slp) (counted func) (k, w))
      = (k + n + 1, snd (sample n slp func w))"
    by (simp add: sample_reads c reads_counted)
  show "fst (sample n (uncounted slp) (counted func) (k, w)) = fst (sample n slp func w)"
    by (simp add: sample_reads c reads_counted)
  show "sample n slp func w
       = (avg (fst (reads slp func n (snd (func w)))), snd (reads slp func n (snd (func w))))"
    by (rule sample_reads)
  show "length (fst (reads slp func n (snd (func w)))) = n"
    by (rule length_reads)
qed

end
